theory Spec2Isabelle
  imports Main "HOL-Library.Sublist"
begin

section \<open>Python strings, dictionaries and exceptions\<close>

text \<open>
  A Python \<open>str\<close> is modelled as a \<open>string\<close> (a list of \<open>char\<close>), one \<open>char\<close>
  standing for one code point below 256.  A \<open>Dict[str, str]\<close> is an association list in
  insertion order, and a raised exception is the \<open>Inl\<close> branch of a sum.  Every operation
  that mutates an object returns the new object next to its result, so that the state an
  exception leaves behind is part of the model.  A Python name keeps its spelling, without
  its leading underscore.
\<close>

datatype error =
    ValueError string
  | KeyError string
  | OSError string
  | RemoteCallError string

type_synonym py_dict = "(string \<times> string) list"

definition dict_get :: "py_dict \<Rightarrow> string \<Rightarrow> error + string" where
  "dict_get d k = (case map_of d k of None \<Rightarrow> Inl (KeyError k) | Some v \<Rightarrow> Inr v)"

text \<open>\<open>str.find\<close>: the lowest index at which \<open>sub\<close> occurs, and \<open>-1\<close> when it does not.\<close>

fun str_find :: "string \<Rightarrow> string \<Rightarrow> int" where
  "str_find [] sub = (if sub = [] then 0 else - 1)"
| "str_find (c # cs) sub =
     (if prefix sub (c # cs) then 0
      else (let r = str_find cs sub in if r = - 1 then - 1 else r + 1))"

text \<open>
  \<open>s[i:j]\<close>: a negative bound counts from the end, and both bounds are clamped to the
  string; the slice is empty when the bounds cross.
\<close>

definition str_slice :: "string \<Rightarrow> int \<Rightarrow> int \<Rightarrow> string" where
  "str_slice s i j =
     (let n = int (length s);
          lo = (if i < 0 then max (i + n) 0 else min i n);
          hi = (if j < 0 then max (j + n) 0 else min j n)
      in take (nat hi - nat lo) (drop (nat lo) s))"

text \<open>The characters \<open>str.strip()\<close> removes, among the code points below 256.\<close>

definition isspace :: "char \<Rightarrow> bool" where
  "isspace c \<longleftrightarrow>
     c \<in> {CHR 0x09, CHR 0x0A, CHR 0x0B, CHR 0x0C, CHR 0x0D, CHR 0x1C, CHR 0x1D, CHR 0x1E,
          CHR 0x1F, CHR 0x20, CHR 0x85, CHR 0xA0}"

definition strip :: "string \<Rightarrow> string" where
  "strip s = rev (dropWhile isspace (rev (dropWhile isspace s)))"

definition startswith :: "string \<Rightarrow> string \<Rightarrow> bool" where
  "startswith s p = prefix p s"

text \<open>\<open>str(k)\<close> for a non-negative integer.\<close>

fun str_of_nat :: "nat \<Rightarrow> string" where
  "str_of_nat n =
     (if n < 10 then [''0123456789'' ! n]
      else str_of_nat (n div 10) @ [''0123456789'' ! (n mod 10)])"

declare str_of_nat.simps [simp del]

text \<open>The value handed to \<open>json.dump\<close>; a file holds the document last written to it.\<close>

datatype json =
    JString string
  | JArray "json list"
  | JObject "(string \<times> json) list"

type_synonym files = "string \<rightharpoonup> json"

definition json_of_dict :: "py_dict \<Rightarrow> json" where
  "json_of_dict d = JObject (map (\<lambda>(k, v). (k, JString v)) d)"


section \<open>Draft2Blog.py\<close>

subsection \<open>BlogMemory\<close>

record BlogMemory =
  drafts :: "py_dict list"

definition BlogMemory_init :: BlogMemory where
  "BlogMemory_init = \<lparr>drafts = []\<rparr>"

text \<open>\<open>timestamp\<close> is what \<open>datetime.now().isoformat()\<close> returns at the call.\<close>

definition add_draft :: "string \<Rightarrow> string \<Rightarrow> string \<Rightarrow> BlogMemory \<Rightarrow> BlogMemory" where
  "add_draft timestamp original_draft styled_draft self =
     (let entry = [(''timestamp'', timestamp),
                   (''original_draft'', original_draft),
                   (''styled_draft'', styled_draft)]
      in self\<lparr>drafts := drafts self @ [entry]\<rparr>)"

definition get_history :: "BlogMemory \<Rightarrow> py_dict list" where
  "get_history self = drafts self"

text \<open>
  \<open>open_w\<close> tells whether \<open>open(filename, 'w')\<close> succeeds; when it does, the file is
  replaced by the dumped document.
\<close>

definition export_memory ::
  "(string \<Rightarrow> bool) \<Rightarrow> BlogMemory \<Rightarrow> string \<Rightarrow> files \<Rightarrow> (error + unit) \<times> files" where
  "export_memory open_w self filename fs =
     (if open_w filename
      then (Inr (), fs(filename \<mapsto> JObject [(''drafts'', JArray (map json_of_dict (drafts self)))]))
      else (Inl (OSError filename), fs))"

subsection \<open>Draft2Blog\<close>

text \<open>
  The chat session belongs to the remote service's client library: its type \<open>'c\<close> and
  its \<open>send_message\<close> are parameters.  \<open>send_message chat msg\<close> returns the reply's text,
  or the exception the call raised, and the session as the call left it.  \<open>start_chat\<close> is
  the session the library returns for the system prompt and the generation configuration.
\<close>

record 'c Draft2Blog =
  memory :: BlogMemory
  chat :: 'c

definition Draft2Blog_init :: "'c \<Rightarrow> 'c Draft2Blog" where
  "Draft2Blog_init start_chat = \<lparr>memory = BlogMemory_init, chat = start_chat\<rparr>"

definition extract_styled_content :: "string \<Rightarrow> error + string" where
  "extract_styled_content response =
     (let start_tag = ''<styled_draft>'';
          end_tag = ''</styled_draft>'';
          start_idx = str_find response start_tag;
          end_idx = str_find response end_tag
      in if start_idx = - 1 \<or> end_idx = - 1
         then Inl (ValueError ''Could not find styled_draft tags in response'')
         else Inr (strip (str_slice response (start_idx + int (length start_tag)) end_idx)))"

text \<open>
  \<open>convert_draft\<close>.  The \<open>except\<close> clause prints the exception and raises it again,
  so it changes no result.
\<close>

definition convert_draft ::
  "('c \<Rightarrow> string \<Rightarrow> (error + string) \<times> 'c) \<Rightarrow> string \<Rightarrow> 'c Draft2Blog \<Rightarrow> string
     \<Rightarrow> (error + string) \<times> 'c Draft2Blog" where
  "convert_draft send_message timestamp self draft0 =
     (let draft = (if \<not> startswith (strip draft0) ''<draft>''
                   then ''<draft>'' @ draft0 @ ''</draft>'' else draft0)
      in case send_message (chat self) draft of
           (Inl e, chat') \<Rightarrow> (Inl e, self\<lparr>chat := chat'\<rparr>)
         | (Inr response, chat') \<Rightarrow>
             (case extract_styled_content response of
                Inl e \<Rightarrow> (Inl e, self\<lparr>chat := chat'\<rparr>)
              | Inr styled_content \<Rightarrow>
                  (Inr styled_content,
                   self\<lparr>chat := chat',
                        memory := add_draft timestamp draft styled_content (memory self)\<rparr>)))"

definition get_conversion_history :: "'c Draft2Blog \<Rightarrow> py_dict list" where
  "get_conversion_history self = get_history (memory self)"

definition export_history ::
  "(string \<Rightarrow> bool) \<Rightarrow> 'c Draft2Blog \<Rightarrow> string \<Rightarrow> files \<Rightarrow> (error + unit) \<times> files" where
  "export_history open_w self filename fs = export_memory open_w (memory self) filename fs"


section \<open>idea2draft2.py\<close>

subsection \<open>MemoryObject\<close>

record MemoryObject =
  interactions :: "string list"

definition MemoryObject_init :: MemoryObject where
  "MemoryObject_init = \<lparr>interactions = []\<rparr>"

definition add_interaction :: "string \<Rightarrow> string \<Rightarrow> MemoryObject \<Rightarrow> MemoryObject" where
  "add_interaction timestamp response self =
     (let k = length (interactions self) + 1;
          interaction =
            [CHR 0x0A] @
            ''<interaction timestamp='' @ [CHR 0x22] @ timestamp @ [CHR 0x22] @ ''>'' @ [CHR 0x0A] @
            ''    <response'' @ str_of_nat k @ ''>'' @ [CHR 0x0A] @
            ''    '' @ response @ [CHR 0x0A] @
            ''    </response'' @ str_of_nat k @ ''>'' @ [CHR 0x0A] @
            ''</interaction>'' @ [CHR 0x0A]
      in self\<lparr>interactions := interactions self @ [interaction]\<rparr>)"

subsection \<open>The prompt templates\<close>

definition processing_prompt_head :: string where
  "processing_prompt_head =
     ''You are an expert analyst who specializes in strengthening and expanding arguments. Your task is to take a brain dump of ideas and:'' @ [CHR 0x0A] @
     ''1. Identify the core arguments'' @ [CHR 0x0A] @
     ''2. Steelman each argument to its strongest form'' @ [CHR 0x0A] @
     ''3. Add supporting evidence and reasoning'' @ [CHR 0x0A] @
     ''4. Expand the implications'' @ [CHR 0x0A] @
     ''5. Find growth directions'' @ [CHR 0x0A] @
     [CHR 0x0A] @
     ''Additional Guideline:'' @ [CHR 0x0A] @
     ''1. Do not say anything like '' @ [CHR 0x22] @ ''as mentioned in the brain dump'' @ [CHR 0x22] @ '' or anything like that.'' @ [CHR 0x0A] @
     [CHR 0x0A] @
     ''Brain dump to analyze:'' @ [CHR 0x0A] @
     ''<brain_dump>'' @ [CHR 0x0A]"

definition processing_prompt_tail :: string where
  "processing_prompt_tail =
     [CHR 0x0A] @
     ''</brain_dump>'' @ [CHR 0x0A] @
     [CHR 0x0A] @
     ''Provide your analysis in these sections:'' @ [CHR 0x0A] @
     [CHR 0x0A] @
     ''<connected_narrative>'' @ [CHR 0x0A] @
     ''Build the strongest possible case for the ideas presented:'' @ [CHR 0x0A] @
     ''- Take each core argument and strengthen it'' @ [CHR 0x0A] @
     ''- Add any supporting evidence and examples that might not be mentioned in the original'' @ [CHR 0x0A] @
     ''- Connect ideas in ways that reinforce the main thesis'' @ [CHR 0x0A] @
     ''- Anticipate and address potential counterarguments'' @ [CHR 0x0A] @
     ''- Explore implications that strengthen the overall case'' @ [CHR 0x0A] @
     ''- Use clear reasoning chains to show how conclusions follow'' @ [CHR 0x0A] @
     ''- Structure the narrative to build a compelling case'' @ [CHR 0x0A] @
     ''</connected_narrative>'' @ [CHR 0x0A] @
     [CHR 0x0A] @
     ''<growth_points>'' @ [CHR 0x0A] @
     ''Identify promising directions to expand the idea:'' @ [CHR 0x0A] @
     ''- What adjacent areas could this thesis apply to?'' @ [CHR 0x0A] @
     ''- What bigger implications haven'' @ [CHR 0x27] @ ''t been explored?'' @ [CHR 0x0A] @
     ''- What industries/domains could be impacted?'' @ [CHR 0x0A] @
     ''- What second-order effects might emerge?'' @ [CHR 0x0A] @
     ''- What research areas could strengthen the case?'' @ [CHR 0x0A] @
     ''- What real-world applications could test these ideas?'' @ [CHR 0x0A] @
     ''- What related theses could be developed?'' @ [CHR 0x0A] @
     [CHR 0x0A] @
     ''For each growth point:'' @ [CHR 0x0A] @
     ''1. Explain why it'' @ [CHR 0x27] @ ''s promising'' @ [CHR 0x0A] @
     ''2. Outline initial evidence/reasoning'' @ [CHR 0x0A] @
     ''3. Suggest concrete next steps'' @ [CHR 0x0A] @
     ''4. Note potential impact'' @ [CHR 0x0A] @
     ''</growth_points>'' @ [CHR 0x0A] @
     [CHR 0x0A] @
     ''<ai_contributions>'' @ [CHR 0x0A] @
     ''Explain how you built upon the original ideas:'' @ [CHR 0x0A] @
     ''- What evidence/examples did you add?'' @ [CHR 0x0A] @
     ''- What connections did you draw?'' @ [CHR 0x0A] @
     ''- What implications did you identify?'' @ [CHR 0x0A] @
     ''- What counterarguments did you address?'' @ [CHR 0x0A] @
     ''- What reasoning chains did you construct?'' @ [CHR 0x0A] @
     ''- What growth areas did you spot?'' @ [CHR 0x0A] @
     [CHR 0x0A] @
     ''Be specific about your contributions so they can be evaluated and built upon.'' @ [CHR 0x0A] @
     ''</ai_contributions>'' @ [CHR 0x0A] @
     ''Be SUPER-CAREFUL about putting the different sections clearly into their own XML tags'' @ [CHR 0x0A] @
     [CHR 0x0A]"

definition refinement_prompt_head :: string where
  "refinement_prompt_head =
     ''You are an expert writer and analyst continuing to develop a narrative about an important idea. Your task is to evolve the current narrative by incorporating new insights or addressing specific aspects while maintaining a cohesive, standalone piece.'' @ [CHR 0x0A] @
     [CHR 0x0A] @
     ''Current narrative state:'' @ [CHR 0x0A] @
     ''<current_narrative>'' @ [CHR 0x0A]"

definition refinement_prompt_middle :: string where
  "refinement_prompt_middle =
     [CHR 0x0A] @
     ''</current_narrative>'' @ [CHR 0x0A] @
     [CHR 0x0A] @
     ''Focus area to develop:'' @ [CHR 0x0A] @
     ''<refinement_focus>'' @ [CHR 0x0A]"

definition refinement_prompt_tail :: string where
  "refinement_prompt_tail =
     [CHR 0x0A] @
     ''</refinement_focus>'' @ [CHR 0x0A] @
     [CHR 0x0A] @
     ''Approach this as an organic development of the ideas. The narrative should:'' @ [CHR 0x0A] @
     ''- Flow as a single, cohesive piece'' @ [CHR 0x0A] @
     ''- Naturally incorporate the requested developments'' @ [CHR 0x0A] @
     ''- Stand on its own as a complete narrative'' @ [CHR 0x0A] @
     ''- Build upon existing points without referencing them as '' @ [CHR 0x22] @ ''previous'' @ [CHR 0x22] @ '' or '' @ [CHR 0x22] @ ''earlier'' @ [CHR 0x22] @ [CHR 0x0A] @
     ''- Weave new insights seamlessly into the existing argument structure'' @ [CHR 0x0A] @
     [CHR 0x0A] @
     ''<connected_narrative>'' @ [CHR 0x0A] @
     ''[Evolved narrative that naturally incorporates the refinements]'' @ [CHR 0x0A] @
     ''</connected_narrative>'' @ [CHR 0x0A] @
     [CHR 0x0A] @
     ''<growth_points>'' @ [CHR 0x0A] @
     ''[Updated opportunities for development based on this evolution:]'' @ [CHR 0x0A] @
     ''- New areas opened by these developments'' @ [CHR 0x0A] @
     ''- Deepened aspects that invite further exploration'' @ [CHR 0x0A] @
     ''- Emerging connections to investigate'' @ [CHR 0x0A] @
     ''</growth_points>'' @ [CHR 0x0A] @
     [CHR 0x0A] @
     ''<ai_contributions>'' @ [CHR 0x0A] @
     ''[How the narrative evolved:]'' @ [CHR 0x0A] @
     ''- Deepened aspects'' @ [CHR 0x0A] @
     ''- New connections drawn'' @ [CHR 0x0A] @
     ''- Strengthened arguments'' @ [CHR 0x0A] @
     ''- Added context and support'' @ [CHR 0x0A] @
     ''</ai_contributions>'' @ [CHR 0x0A] @
     ''Be SUPER-CAREFUL about putting the different sections clearly into their own XML tags'' @ [CHR 0x0A]"

definition get_processing_prompt :: "string \<Rightarrow> string" where
  "get_processing_prompt brain_dump =
     processing_prompt_head @ brain_dump @ processing_prompt_tail"

definition get_refinement_prompt :: "string \<Rightarrow> string \<Rightarrow> string" where
  "get_refinement_prompt current_narrative refinement_request =
     refinement_prompt_head @ current_narrative @ refinement_prompt_middle @
     refinement_request @ refinement_prompt_tail"

subsection \<open>ThoughtProcessor\<close>

text \<open>
  The field \<open>memory\<close> of the class is \<open>tp_memory\<close> here.  The remote model is the
  parameter \<open>generate_content\<close>: the text of the completion for a prompt, or the exception
  the call raised.
\<close>

record ThoughtProcessor =
  tp_memory :: MemoryObject
  current_narrative :: string
  current_growth_points :: string

definition ThoughtProcessor_init :: ThoughtProcessor where
  "ThoughtProcessor_init =
     \<lparr>tp_memory = MemoryObject_init, current_narrative = [], current_growth_points = []\<rparr>"

definition extract_tag_content :: "string \<Rightarrow> string \<Rightarrow> string" where
  "extract_tag_content response tag =
     (let start_tag = ''<'' @ tag @ ''>'';
          end_tag = ''</'' @ tag @ ''>'';
          start_idx = str_find response start_tag + int (length start_tag);
          end_idx = str_find response end_tag
      in strip (str_slice response start_idx end_idx))"

definition parse_response :: "string \<Rightarrow> py_dict" where
  "parse_response response =
     [(''connected_narrative'', extract_tag_content response ''connected_narrative''),
      (''growth_points'', extract_tag_content response ''growth_points''),
      (''ai_contributions'', extract_tag_content response ''ai_contributions'')]"

definition process_brain_dump ::
  "(string \<Rightarrow> error + string) \<Rightarrow> string \<Rightarrow> ThoughtProcessor \<Rightarrow> string
     \<Rightarrow> (error + py_dict) \<times> ThoughtProcessor" where
  "process_brain_dump generate_content timestamp self brain_dump =
     (case generate_content (get_processing_prompt brain_dump) of
        Inl e \<Rightarrow> (Inl e, self)
      | Inr response \<Rightarrow>
          (let self1 = self\<lparr>tp_memory := add_interaction timestamp response (tp_memory self)\<rparr>;
               parsed_response = parse_response response
           in case dict_get parsed_response ''connected_narrative'' of
                Inl e \<Rightarrow> (Inl e, self1)
              | Inr narrative \<Rightarrow>
                  (let self2 = self1\<lparr>current_narrative := narrative\<rparr>
                   in case dict_get parsed_response ''growth_points'' of
                        Inl e \<Rightarrow> (Inl e, self2)
                      | Inr growth_points \<Rightarrow>
                          (Inr parsed_response,
                           self2\<lparr>current_growth_points := growth_points\<rparr>))))"

definition refine_narrative ::
  "(string \<Rightarrow> error + string) \<Rightarrow> string \<Rightarrow> ThoughtProcessor \<Rightarrow> string
     \<Rightarrow> (error + py_dict) \<times> ThoughtProcessor" where
  "refine_narrative generate_content timestamp self refinement_request =
     (case generate_content (get_refinement_prompt (current_narrative self) refinement_request) of
        Inl e \<Rightarrow> (Inl e, self)
      | Inr response \<Rightarrow>
          (let self1 = self\<lparr>tp_memory := add_interaction timestamp response (tp_memory self)\<rparr>;
               parsed_response = parse_response response
           in case dict_get parsed_response ''connected_narrative'' of
                Inl e \<Rightarrow> (Inl e, self1)
              | Inr narrative \<Rightarrow>
                  (let self2 = self1\<lparr>current_narrative := narrative\<rparr>
                   in case dict_get parsed_response ''growth_points'' of
                        Inl e \<Rightarrow> (Inl e, self2)
                      | Inr growth_points \<Rightarrow>
                          (Inr parsed_response,
                           self2\<lparr>current_growth_points := growth_points\<rparr>))))"

definition export_final_narrative ::
  "(string \<Rightarrow> bool) \<Rightarrow> string \<Rightarrow> ThoughtProcessor \<Rightarrow> string \<Rightarrow> files \<Rightarrow> (error + string) \<times> files" where
  "export_final_narrative open_w timestamp self filename fs =
     (let output = [(''connected_narrative'', current_narrative self),
                    (''growth_points'', current_growth_points self),
                    (''timestamp'', timestamp)]
      in if open_w filename then (Inr filename, fs(filename \<mapsto> json_of_dict output))
         else (Inl (OSError filename), fs))"


section \<open>orchestrator.py\<close>

text \<open>\<open>current_state\<close> is \<open>None\<close> until a result has been stored.\<close>

record 'c Orchestrator =
  thought_processor :: ThoughtProcessor
  blog_converter :: "'c Draft2Blog"
  current_state :: "py_dict option"

definition Orchestrator_init :: "'c \<Rightarrow> 'c Orchestrator" where
  "Orchestrator_init start_chat =
     \<lparr>thought_processor = ThoughtProcessor_init,
      blog_converter = Draft2Blog_init start_chat,
      current_state = None\<rparr>"

definition process_initial_idea ::
  "(string \<Rightarrow> error + string) \<Rightarrow> string \<Rightarrow> 'c Orchestrator \<Rightarrow> string
     \<Rightarrow> (error + py_dict) \<times> 'c Orchestrator" where
  "process_initial_idea generate_content timestamp self idea =
     (case process_brain_dump generate_content timestamp (thought_processor self) idea of
        (Inl e, tp) \<Rightarrow> (Inl e, self\<lparr>thought_processor := tp\<rparr>)
      | (Inr result, tp) \<Rightarrow>
          (Inr result, self\<lparr>thought_processor := tp, current_state := Some result\<rparr>))"

definition refine_content ::
  "(string \<Rightarrow> error + string) \<Rightarrow> string \<Rightarrow> 'c Orchestrator \<Rightarrow> string
     \<Rightarrow> (error + py_dict) \<times> 'c Orchestrator" where
  "refine_content generate_content timestamp self refinement =
     (case refine_narrative generate_content timestamp (thought_processor self) refinement of
        (Inl e, tp) \<Rightarrow> (Inl e, self\<lparr>thought_processor := tp\<rparr>)
      | (Inr result, tp) \<Rightarrow>
          (Inr result, self\<lparr>thought_processor := tp, current_state := Some result\<rparr>))"

text \<open>\<open>not self.current_state\<close> holds of \<open>None\<close> and of the empty dictionary.\<close>

definition falsy :: "py_dict option \<Rightarrow> bool" where
  "falsy v = (case v of None \<Rightarrow> True | Some d \<Rightarrow> d = [])"

definition finalize_to_blog ::
  "('c \<Rightarrow> string \<Rightarrow> (error + string) \<times> 'c) \<Rightarrow> string \<Rightarrow> 'c Orchestrator
     \<Rightarrow> (error + string) \<times> 'c Orchestrator" where
  "finalize_to_blog send_message timestamp self =
     (if falsy (current_state self) then (Inl (ValueError ''No content to finalize''), self)
      else case dict_get (the (current_state self)) ''connected_narrative'' of
             Inl e \<Rightarrow> (Inl e, self)
           | Inr narrative \<Rightarrow>
               (case convert_draft send_message timestamp (blog_converter self) narrative of
                  (r, bc) \<Rightarrow> (r, self\<lparr>blog_converter := bc\<rparr>)))"


section \<open>Stubs of the remote services\<close>

text \<open>
  The stubs the test scenarios use: a model that returns the same completion for every
  prompt, and a chat session that gives the same reply to every message and keeps the
  messages it was sent.
\<close>

definition stub_model :: "string \<Rightarrow> string \<Rightarrow> error + string" where
  "stub_model completion prompt = Inr completion"

definition stub_chat :: "string \<Rightarrow> string list \<Rightarrow> string \<Rightarrow> (error + string) \<times> string list" where
  "stub_chat reply sent msg = (Inr reply, sent @ [msg])"

definition stub_completion :: string where
  "stub_completion =
     ''<connected_narrative>N</connected_narrative>'' @
     ''<growth_points>G</growth_points>'' @
     ''<ai_contributions>C</ai_contributions>''"

text \<open>A completion that has no \<open><connected_narrative></connected_narrative>\<close> pair.\<close>

definition malformed_completion :: string where
  "malformed_completion =
     ''plain text<growth_points>G</growth_points><ai_contributions>C</ai_contributions>''"

definition stub_sections :: py_dict where
  "stub_sections =
     [(''connected_narrative'', ''N''), (''growth_points'', ''G''), (''ai_contributions'', ''C'')]"


section \<open>What the operations return\<close>

lemma process_brain_dump_Inr:
  "generate_content (get_processing_prompt brain_dump) = Inr response \<Longrightarrow>
   process_brain_dump generate_content timestamp self brain_dump =
     (Inr (parse_response response),
      self\<lparr>tp_memory := add_interaction timestamp response (tp_memory self),
           current_narrative := extract_tag_content response ''connected_narrative'',
           current_growth_points := extract_tag_content response ''growth_points''\<rparr>)"
  by (simp add: process_brain_dump_def parse_response_def dict_get_def)

lemma process_brain_dump_Inl:
  "generate_content (get_processing_prompt brain_dump) = Inl e \<Longrightarrow>
   process_brain_dump generate_content timestamp self brain_dump = (Inl e, self)"
  by (simp add: process_brain_dump_def)

lemma refine_narrative_Inr:
  "generate_content (get_refinement_prompt (current_narrative self) refinement_request)
     = Inr response \<Longrightarrow>
   refine_narrative generate_content timestamp self refinement_request =
     (Inr (parse_response response),
      self\<lparr>tp_memory := add_interaction timestamp response (tp_memory self),
           current_narrative := extract_tag_content response ''connected_narrative'',
           current_growth_points := extract_tag_content response ''growth_points''\<rparr>)"
  by (simp add: refine_narrative_def parse_response_def dict_get_def)

lemma refine_narrative_Inl:
  "generate_content (get_refinement_prompt (current_narrative self) refinement_request)
     = Inl e \<Longrightarrow>
   refine_narrative generate_content timestamp self refinement_request = (Inl e, self)"
  by (simp add: refine_narrative_def)

lemma parse_stub_completion: "parse_response stub_completion = stub_sections"
  by code_simp

lemma extract_stub_styled: "extract_styled_content ''<styled_draft>S</styled_draft>'' = Inr ''S''"
  by code_simp

lemma not_wrapped_N: "\<not> startswith (strip ''N'') ''<draft>''"
  by code_simp


lemma parse_malformed_completion:
  "parse_response malformed_completion =
     [(''connected_narrative'', ''ints>G</growth_points><ai_contributions>C</ai_contributions''),
      (''growth_points'', ''G''), (''ai_contributions'', ''C'')]"
  by code_simp

lemma malformed_lacks_tag: "\<not> sublist ''<connected_narrative>'' malformed_completion"
  by code_simp

lemma finalize_precondition:
  "fst (finalize_to_blog send_message t self) = Inl (ValueError ''No content to finalize'')
     \<and> snd (finalize_to_blog send_message t self) = self"
  if "falsy (current_state self)"
  using that by (simp add: finalize_to_blog_def)


section \<open>The tag extractor\<close>

subsection \<open>\<open>str.find\<close> and the first occurrence of a tag\<close>

lemma str_find_ge: "- 1 \<le> str_find s sub"
  by (induction s) (auto simp: Let_def)

lemma str_find_missing: "str_find s sub = - 1 \<longleftrightarrow> \<not> sublist sub s"
proof (induction s)
  case Nil
  then show ?case by simp
next
  case (Cons c cs)
  have "str_find cs sub + 1 \<noteq> - 1"
    using str_find_ge [of cs sub] by arith
  with Cons show ?case
    by (simp add: sublist_Cons_right Let_def)
qed

lemma str_find_prefix: "prefix sub s \<Longrightarrow> str_find s sub = 0"
  by (cases s) auto

lemma str_find_skip:
  "\<forall>j<length pre. \<not> prefix sub (drop j (pre @ rest)) \<Longrightarrow>
   str_find (pre @ rest) sub =
     (if str_find rest sub = - 1 then - 1 else int (length pre) + str_find rest sub)"
proof (induction pre)
  case Nil
  then show ?case by simp
next
  case (Cons c cs)
  from Cons.prems have first: "\<not> prefix sub (c # cs @ rest)"
    by (metis append_Cons drop0 length_greater_0_conv list.distinct(1))
  from Cons.prems have "\<forall>j<length cs. \<not> prefix sub (drop j (cs @ rest))"
    by (metis Suc_less_eq append_Cons drop_Suc_Cons length_Cons)
  then have "str_find (cs @ rest) sub =
     (if str_find rest sub = - 1 then - 1 else int (length cs) + str_find rest sub)"
    by (rule Cons.IH)
  moreover have "int (length cs) + str_find rest sub \<noteq> - 1" if "str_find rest sub \<noteq> - 1"
    using str_find_ge [of rest sub] that by arith
  ultimately show ?case
    using first by (simp add: Let_def)
qed

lemma hd_in_tl_append: "x1 \<noteq> [] \<Longrightarrow> x2 \<noteq> [] \<Longrightarrow> hd x2 \<in> set (tl (x1 @ x2))"
  by (cases x1; cases x2) auto

lemma sublist_append_right_head:
  assumes "sublist t (a @ b)" and "b \<noteq> []" and "hd b \<notin> set (tl t)"
  shows "sublist t a \<or> sublist t b"
proof -
  from assms(1) consider "sublist t a" | "sublist t b"
    | x1 x2 where "t = x1 @ x2" "suffix x1 a" "prefix x2 b"
    by (auto simp: sublist_append)
  then show ?thesis
  proof cases
    case 3
    show ?thesis
    proof (cases "x1 = [] \<or> x2 = []")
      case True
      with 3 show ?thesis by auto
    next
      case False
      with 3 assms(2) have "hd x2 = hd b"
        by (cases x2; cases b) auto
      with False 3 assms(3) show ?thesis
        using hd_in_tl_append [of x1 x2] by simp
    qed
  qed auto
qed

lemma sublist_append_left_head:
  assumes "sublist t (a @ b)" and "t \<noteq> []" and "hd t \<notin> set (tl a)"
  shows "sublist t a \<or> sublist t b \<or> prefix a t"
proof -
  from assms(1) consider "sublist t a" | "sublist t b"
    | x1 x2 where "t = x1 @ x2" "suffix x1 a" "prefix x2 b"
    by (auto simp: sublist_append)
  then show ?thesis
  proof cases
    case 3
    from 3(2) obtain zs where a: "a = zs @ x1" by (auto simp: suffix_def)
    show ?thesis
    proof (cases "x1 = []")
      case True
      with 3 show ?thesis by auto
    next
      case x1: False
      show ?thesis
      proof (cases "zs = []")
        case True
        with a 3 show ?thesis by simp
      next
        case False
        from x1 3(1) have "hd t = hd x1" by simp
        with False x1 a assms(3) show ?thesis
          using hd_in_tl_append [of zs x1] by simp
      qed
    qed
  qed auto
qed

lemma no_early_occurrence:
  assumes "\<not> sublist sub pre" and "rest \<noteq> []" and "hd rest \<notin> set (tl sub)"
  shows "\<forall>j<length pre. \<not> prefix sub (drop j (pre @ rest))"
proof (intro allI impI notI)
  fix j
  assume j: "j < length pre" and p: "prefix sub (drop j (pre @ rest))"
  from j have nonempty: "drop j pre \<noteq> []" by simp
  have inside: "sublist xs pre" if "prefix xs (drop j pre)" for xs
    using that by (meson prefix_imp_sublist sublist_drop sublist_order.order.trans)
  from j p have "prefix sub (drop j pre @ rest)" by simp
  then consider "prefix sub (drop j pre)"
    | us where "sub = drop j pre @ us" "prefix us rest"
    by (auto simp: prefix_append)
  then show False
  proof cases
    case 1
    with inside assms(1) show False by blast
  next
    case 2
    show False
    proof (cases "us = []")
      case True
      with 2 inside [of sub] assms(1) show False by simp
    next
      case False
      with 2 assms(2) have "hd us = hd rest"
        by (cases us; cases rest) auto
      with False nonempty 2 assms(3) show False
        using hd_in_tl_append [of "drop j pre" us] by simp
    qed
  qed
qed

lemma str_find_first_occurrence:
  assumes "\<not> sublist sub pre" and "sub \<noteq> []" and "hd sub \<notin> set (tl sub)"
  shows "str_find (pre @ sub @ post) sub = int (length pre)"
proof -
  from assms have "\<forall>j<length pre. \<not> prefix sub (drop j (pre @ (sub @ post)))"
    by (intro no_early_occurrence) auto
  then show ?thesis
    by (simp add: str_find_skip str_find_prefix)
qed

lemma str_slice_middle:
  "str_slice (a @ x @ b) (int (length a)) (int (length a) + int (length x)) = x"
  by (simp add: str_slice_def Let_def min_def nat_add_distrib)

lemma end_tag_not_before:
  assumes "\<not> sublist ''</styled_draft>'' pre" and "\<not> sublist ''</styled_draft>'' x"
  shows "\<not> sublist ''</styled_draft>'' (pre @ ''<styled_draft>'' @ x)"
proof
  assume "sublist ''</styled_draft>'' (pre @ ''<styled_draft>'' @ x)"
  with assms(1) have "sublist ''</styled_draft>'' (''<styled_draft>'' @ x)"
    using sublist_append_right_head [of "''</styled_draft>''" pre "''<styled_draft>'' @ x"]
    by simp
  with assms(2) have "sublist ''</styled_draft>'' ''<styled_draft>'' \<or> prefix ''<styled_draft>'' ''</styled_draft>''"
    using sublist_append_left_head [of "''</styled_draft>''" "''<styled_draft>''" x]
    by simp
  then show False
    by (simp add: sublist_code)
qed

text \<open>
  The extractor of \<open>_parse_response\<close> on a response in which the pair of a tag is the first
  open tag and the first close tag.
\<close>

lemma extract_tag_content_first_pair:
  assumes "CHR ''<'' \<notin> set tag"
    and "\<not> sublist (''<'' @ tag @ ''>'') pre"
    and "\<not> sublist (''</'' @ tag @ ''>'') (pre @ ''<'' @ tag @ ''>'' @ x)"
  shows "extract_tag_content (pre @ (''<'' @ tag @ ''>'') @ x @ (''</'' @ tag @ ''>'') @ post) tag
    = strip x"
proof -
  let ?open = "''<'' @ tag @ ''>''" and ?close = "''</'' @ tag @ ''>''"
  let ?s = "pre @ ?open @ x @ ?close @ post"
  from assms(1,2) have "str_find (pre @ ?open @ (x @ ?close @ post)) ?open = int (length pre)"
    by (intro str_find_first_occurrence) auto
  then have a: "str_find ?s ?open = int (length pre)"
    by simp
  from assms(1,3) have "str_find ((pre @ ?open @ x) @ ?close @ post) ?close
      = int (length (pre @ ?open @ x))"
    by (intro str_find_first_occurrence) auto
  then have b: "str_find ?s ?close = int (length (pre @ ?open)) + int (length x)"
    by simp
  have c: "str_slice ((pre @ ?open) @ x @ (?close @ post))
      (int (length (pre @ ?open))) (int (length (pre @ ?open)) + int (length x)) = x"
    by (rule str_slice_middle)
  have "str_slice ?s (str_find ?s ?open + int (length ?open)) (str_find ?s ?close) = x"
    unfolding a b using c by (simp add: ac_simps)
  then show ?thesis
    by (simp add: extract_tag_content_def Let_def)
qed

subsection \<open>\<open>_extract_styled_content\<close>\<close>

text \<open>
  Claim C4.  When the response is \<open>pre <styled_draft> x </styled_draft> post\<close> and these
  two tags are the first open tag and the first close tag of the response (neither tag
  occurs in \<open>pre\<close>, and the close tag does not occur in \<open>x\<close>), the extractor returns \<open>x\<close>
  with its surrounding whitespace removed.  When the response lacks the open tag or the
  close tag, the extractor raises the missing-section error.
\<close>

theorem extract_styled_content_spec:
  "(\<not> sublist ''<styled_draft>'' pre \<and> \<not> sublist ''</styled_draft>'' pre \<and>
    \<not> sublist ''</styled_draft>'' x \<longrightarrow>
      extract_styled_content (pre @ ''<styled_draft>'' @ x @ ''</styled_draft>'' @ post)
        = Inr (strip x))
   \<and> (\<not> sublist ''<styled_draft>'' s \<or> \<not> sublist ''</styled_draft>'' s \<longrightarrow>
      extract_styled_content s
        = Inl (ValueError ''Could not find styled_draft tags in response''))"
proof (intro conjI impI)
  assume h: "\<not> sublist ''<styled_draft>'' pre \<and> \<not> sublist ''</styled_draft>'' pre \<and>
    \<not> sublist ''</styled_draft>'' x"
  let ?s = "pre @ ''<styled_draft>'' @ x @ ''</styled_draft>'' @ post"
  from h have a: "str_find ?s ''<styled_draft>'' = int (length pre)"
    by (intro str_find_first_occurrence) auto
  from h have "\<not> sublist ''</styled_draft>'' (pre @ ''<styled_draft>'' @ x)"
    by (intro end_tag_not_before) auto
  then have "str_find ((pre @ ''<styled_draft>'' @ x) @ ''</styled_draft>'' @ post) ''</styled_draft>''
      = int (length (pre @ ''<styled_draft>'' @ x))"
    by (intro str_find_first_occurrence) auto
  then have b: "str_find ?s ''</styled_draft>'' = int (length pre) + 14 + int (length x)"
    by simp
  have "str_slice ((pre @ ''<styled_draft>'') @ x @ (''</styled_draft>'' @ post))
      (int (length (pre @ ''<styled_draft>''))) (int (length (pre @ ''<styled_draft>'')) + int (length x)) = x"
    by (rule str_slice_middle)
  then have c: "str_slice ?s (int (length pre) + 14) (int (length pre) + 14 + int (length x)) = x"
    by (simp add: ac_simps)
  show "extract_styled_content ?s = Inr (strip x)"
    unfolding extract_styled_content_def Let_def a b using c by (simp add: ac_simps)
next
  assume "\<not> sublist ''<styled_draft>'' s \<or> \<not> sublist ''</styled_draft>'' s"
  then have "str_find s ''<styled_draft>'' = - 1 \<or> str_find s ''</styled_draft>'' = - 1"
    by (simp add: str_find_missing)
  then show "extract_styled_content s = Inl (ValueError ''Could not find styled_draft tags in response'')"
    unfolding extract_styled_content_def Let_def by auto
qed

theorem extract_styled_content_spec_witness:
  "(\<not> sublist ''<styled_draft>'' ''Here: '' \<and> \<not> sublist ''</styled_draft>'' ''Here: '' \<and>
    \<not> sublist ''</styled_draft>'' '' A post '')
   \<and> extract_styled_content (''Here: '' @ ''<styled_draft>'' @ '' A post '' @ ''</styled_draft>'' @ '' bye'')
       = Inr ''A post''
   \<and> \<not> sublist ''</styled_draft>'' ''<styled_draft>no end''
   \<and> extract_styled_content ''<styled_draft>no end''
       = Inl (ValueError ''Could not find styled_draft tags in response'')"
proof -
  have h1: "\<not> sublist ''<styled_draft>'' ''Here: '' \<and> \<not> sublist ''</styled_draft>'' ''Here: '' \<and>
    \<not> sublist ''</styled_draft>'' '' A post ''"
    by code_simp
  have h2: "\<not> sublist ''</styled_draft>'' ''<styled_draft>no end''"
    by code_simp
  have h3: "strip '' A post '' = ''A post''"
    by code_simp
  from h1 h2 h3
    extract_styled_content_spec [of "''Here: ''" "'' A post ''" "'' bye''" "''<styled_draft>no end''"]
  show ?thesis by simp
qed


section \<open>The end-to-end scenario\<close>

text \<open>
  Claim C9.  With a model stub that answers every prompt with the three sections \<open>N\<close>,
  \<open>G\<close> and \<open>C\<close> in their tags, \<open>process_initial_idea("hello")\<close> returns exactly the
  dictionary of the three sections, whatever the orchestrator held before; and with a
  style model that replies \<open><styled_draft>S</styled_draft>\<close> to every message, whatever
  it does to its session, the \<open>finalize_to_blog()\<close> that follows returns \<open>S\<close>.
\<close>

theorem end_to_end_stub:
  "fst (process_initial_idea (stub_model stub_completion) t1 orch ''hello'') = Inr stub_sections
   \<and> fst (finalize_to_blog (\<lambda>c msg. (Inr ''<styled_draft>S</styled_draft>'', next_chat c msg)) t2
            (snd (process_initial_idea (stub_model stub_completion) t1 orch ''hello''))) = Inr ''S''"
  by (simp add: process_initial_idea_def process_brain_dump_Inr stub_model_def parse_stub_completion
      finalize_to_blog_def falsy_def stub_sections_def dict_get_def convert_draft_def Let_def
      not_wrapped_N extract_stub_styled)


section \<open>Missing guards\<close>

text \<open>
  Claim C1.  The completion \<open>malformed_completion\<close> has no \<open><connected_narrative>\<close>
  tag.  \<open>process_initial_idea\<close> does not fail on it: \<open>find\<close> returns \<open>-1\<close> for both
  tags, the slice \<open>response[20:-1]\<close> is taken as the connected narrative, and the
  result is stored as the orchestrator's \<open>current_state\<close>.
\<close>

theorem process_accepts_missing_section:
  "\<not> sublist ''<connected_narrative>'' malformed_completion
   \<and> fst (process_initial_idea (stub_model malformed_completion) t (Orchestrator_init c) ''hello'')
       = Inr [(''connected_narrative'', ''ints>G</growth_points><ai_contributions>C</ai_contributions''),
              (''growth_points'', ''G''), (''ai_contributions'', ''C'')]
   \<and> current_state (snd (process_initial_idea (stub_model malformed_completion) t (Orchestrator_init c) ''hello''))
       = Some [(''connected_narrative'', ''ints>G</growth_points><ai_contributions>C</ai_contributions''),
               (''growth_points'', ''G''), (''ai_contributions'', ''C'')]"
  by (simp add: malformed_lacks_tag process_initial_idea_def process_brain_dump_Inr stub_model_def
      parse_malformed_completion)

text \<open>
  Claim C2.  On a fresh orchestrator \<open>refine_content\<close> does not fail: it sends the
  refinement prompt built from the empty narrative to the model, and stores what comes
  back as \<open>current_state\<close>.
\<close>

theorem refine_before_process_succeeds:
  "fst (refine_content
         (\<lambda>prompt. if prompt = get_refinement_prompt [] ''more'' then Inr stub_completion
                    else Inl (RemoteCallError ''another prompt''))
         t (Orchestrator_init c) ''more'') = Inr stub_sections
   \<and> current_state (snd (refine_content
         (\<lambda>prompt. if prompt = get_refinement_prompt [] ''more'' then Inr stub_completion
                    else Inl (RemoteCallError ''another prompt''))
         t (Orchestrator_init c) ''more'')) = Some stub_sections"
  by (simp add: refine_content_def refine_narrative_Inr Orchestrator_init_def
      ThoughtProcessor_init_def parse_stub_completion)

text \<open>
  Claim C3.  After a \<open>refine_content\<close> on a fresh orchestrator, with no
  \<open>process_initial_idea\<close> at all, \<open>finalize_to_blog\<close> does not raise its precondition
  error: it converts the narrative the refinement stored.
\<close>

theorem finalize_after_refine_only:
  "current_state (Orchestrator_init []) = None
   \<and> fst (finalize_to_blog (stub_chat ''<styled_draft>S</styled_draft>'') t2
           (snd (refine_content (stub_model stub_completion) t1 (Orchestrator_init []) ''more'')))
       = Inr ''S''"
  by (simp add: refine_content_def refine_narrative_Inr Orchestrator_init_def stub_model_def
      parse_stub_completion finalize_to_blog_def falsy_def stub_sections_def dict_get_def
      convert_draft_def Let_def not_wrapped_N stub_chat_def extract_stub_styled)


section \<open>Session memory\<close>

lemma drafts_record_all:
  "drafts (foldl (\<lambda>m (t, od, sd). add_draft t od sd m) m ops) =
     drafts m @ map (\<lambda>(t, od, sd).
       [(''timestamp'', t), (''original_draft'', od), (''styled_draft'', sd)]) ops"
  by (induction ops arbitrary: m) (auto simp: add_draft_def)

lemma convert_draft_history_prefix:
  "prefix (get_conversion_history self)
     (get_conversion_history (snd (convert_draft send_message t self draft)))"
  by (auto simp: convert_draft_def get_conversion_history_def get_history_def add_draft_def Let_def
      split: prod.splits sum.splits)

text \<open>
  Claim C6.  The log of \<open>BlogMemory\<close> is append-only.  After the operations \<open>ops\<close> have
  been recorded on a new log, \<open>get_history\<close> returns one entry for each, in call order
  and with the recorded fields; recording appends one entry and leaves the earlier ones as
  they were; a \<open>convert_draft\<close>, failed or not, keeps the history it found as a prefix; and
  the exported document has a \<open>drafts\<close> array with one object for each entry, carrying the
  same three fields.
\<close>

theorem blog_memory_append_only:
  "get_history (foldl (\<lambda>m (t, od, sd). add_draft t od sd m) BlogMemory_init ops)
     = map (\<lambda>(t, od, sd).
         [(''timestamp'', t), (''original_draft'', od), (''styled_draft'', sd)]) ops
   \<and> length (get_history (foldl (\<lambda>m (t, od, sd). add_draft t od sd m) BlogMemory_init ops))
     = length ops
   \<and> get_history (add_draft t od sd m)
     = get_history m @ [[(''timestamp'', t), (''original_draft'', od), (''styled_draft'', sd)]]
   \<and> prefix (get_conversion_history self)
        (get_conversion_history (snd (convert_draft send_message t self draft)))
   \<and> (open_w filename \<longrightarrow>
        snd (export_memory open_w
              (foldl (\<lambda>m (t, od, sd). add_draft t od sd m) BlogMemory_init ops) filename fs)
          filename
        = Some (JObject [(''drafts'', JArray (map (\<lambda>(t, od, sd).
            JObject [(''timestamp'', JString t), (''original_draft'', JString od),
                     (''styled_draft'', JString sd)]) ops))]))"
proof -
  let ?log = "foldl (\<lambda>m (t, od, sd). add_draft t od sd m) BlogMemory_init ops"
  have log: "drafts ?log = map (\<lambda>(t, od, sd).
         [(''timestamp'', t), (''original_draft'', od), (''styled_draft'', sd)]) ops"
    by (simp add: drafts_record_all BlogMemory_init_def)
  have doc: "map json_of_dict (drafts ?log)
      = map (\<lambda>(t, od, sd).
            JObject [(''timestamp'', JString t), (''original_draft'', JString od),
                     (''styled_draft'', JString sd)]) ops"
    unfolding log by (simp add: json_of_dict_def split_def)
  have one: "get_history (add_draft t od sd m)
     = get_history m @ [[(''timestamp'', t), (''original_draft'', od), (''styled_draft'', sd)]]"
    by (simp add: get_history_def add_draft_def)
  have export: "snd (export_memory open_w ?log filename fs) filename
        = Some (JObject [(''drafts'', JArray (map (\<lambda>(t, od, sd).
            JObject [(''timestamp'', JString t), (''original_draft'', JString od),
                     (''styled_draft'', JString sd)]) ops))])" if "open_w filename"
    using that by (simp add: export_memory_def doc)
  from log one export show ?thesis
    by (simp add: get_history_def convert_draft_history_prefix)
qed

theorem blog_memory_append_only_witness:
  "(\<lambda>f. True) ''blog_history.json''
   \<and> snd (export_memory (\<lambda>f. True)
          (foldl (\<lambda>m (t, od, sd). add_draft t od sd m) BlogMemory_init
             [(''t1'', ''<draft>a</draft>'', ''A''), (''t2'', ''<draft>b</draft>'', ''B'')])
          ''blog_history.json'' Map.empty) ''blog_history.json''
       = Some (JObject [(''drafts'', JArray
           [JObject [(''timestamp'', JString ''t1''), (''original_draft'', JString ''<draft>a</draft>''),
                     (''styled_draft'', JString ''A'')],
            JObject [(''timestamp'', JString ''t2''), (''original_draft'', JString ''<draft>b</draft>''),
                     (''styled_draft'', JString ''B'')]])])"
  using blog_memory_append_only
    [where ops = "[(''t1'', ''<draft>a</draft>'', ''A''), (''t2'', ''<draft>b</draft>'', ''B'')]"
       and open_w = "\<lambda>f. True" and filename = "''blog_history.json''" and fs = Map.empty
       and t = "''t3''" and od = "''<draft>c</draft>''" and sd = "''C''" and m = BlogMemory_init
       and self = "Draft2Blog_init []" and send_message = "stub_chat ''<styled_draft>C</styled_draft>''"
       and draft = "''c''"]
  by simp

text \<open>
  Claim C10.  A successful \<open>convert_draft\<close> appends one entry whose \<open>original_draft\<close> is
  the string that was sent to the model: the input between \<open><draft>\<close> and \<open></draft>\<close>
  when its stripped form does not start with \<open><draft>\<close>, the input itself otherwise.
  So the entry holds the caller's input verbatim only when the input arrived wrapped, and
  the exported document carries the same field.
\<close>

theorem convert_draft_records_wrapped:
  assumes "convert_draft send_message t self draft = (Inr styled, self')"
  shows "get_conversion_history self' = get_conversion_history self @
           [[(''timestamp'', t),
             (''original_draft'',
                if startswith (strip draft) ''<draft>'' then draft
                else ''<draft>'' @ draft @ ''</draft>''),
             (''styled_draft'', styled)]]
         \<and> (map_of (last (get_conversion_history self')) ''original_draft'' = Some draft
              \<longleftrightarrow> startswith (strip draft) ''<draft>'')
         \<and> (open_w filename \<longrightarrow>
              snd (export_history open_w self' filename fs) filename
              = Some (JObject [(''drafts'', JArray (map json_of_dict (get_conversion_history self) @
                  [JObject [(''timestamp'', JString t),
                            (''original_draft'', JString
                               (if startswith (strip draft) ''<draft>'' then draft
                                else ''<draft>'' @ draft @ ''</draft>'')),
                            (''styled_draft'', JString styled)]]))]))"
  using assms
  by (auto simp: convert_draft_def get_conversion_history_def get_history_def add_draft_def Let_def
      export_history_def export_memory_def json_of_dict_def
      split: prod.splits sum.splits if_splits)

lemma convert_stub_N:
  "convert_draft (stub_chat ''<styled_draft>S</styled_draft>'') ''t1'' (Draft2Blog_init []) ''N''
     = (Inr ''S'',
        \<lparr>memory = add_draft ''t1'' ''<draft>N</draft>'' ''S'' BlogMemory_init,
         chat = [''<draft>N</draft>'']\<rparr>)"
  by (simp add: convert_draft_def Let_def not_wrapped_N stub_chat_def extract_stub_styled
      Draft2Blog_init_def)

theorem convert_draft_records_wrapped_witness:
  "convert_draft (stub_chat ''<styled_draft>S</styled_draft>'') ''t1'' (Draft2Blog_init []) ''N''
     = (Inr ''S'',
        \<lparr>memory = add_draft ''t1'' ''<draft>N</draft>'' ''S'' BlogMemory_init,
         chat = [''<draft>N</draft>'']\<rparr>)
   \<and> get_conversion_history
        \<lparr>memory = add_draft ''t1'' ''<draft>N</draft>'' ''S'' BlogMemory_init,
         chat = [''<draft>N</draft>'']\<rparr>
       = [[(''timestamp'', ''t1''), (''original_draft'', ''<draft>N</draft>''),
           (''styled_draft'', ''S'')]]
   \<and> (\<lambda>f. True) ''blog_history.json''"
  using convert_stub_N
    convert_draft_records_wrapped [OF convert_stub_N, of "\<lambda>f. True" "''blog_history.json''" Map.empty]
  by (simp add: not_wrapped_N get_conversion_history_def get_history_def
      Draft2Blog_init_def BlogMemory_init_def add_draft_def)


section \<open>Wrapping the draft\<close>

lemma strip_keeps_open_tag: "startswith (strip (''<draft>'' @ x)) ''<draft>''"
proof -
  have lead: "dropWhile isspace (''<draft>'' @ x) = ''<draft>'' @ x"
    by (simp add: isspace_def)
  have "\<exists>ys. dropWhile isspace (rev x @ rev ''<draft>'') = ys @ rev ''<draft>''"
  proof (cases "\<forall>c\<in>set (rev x). isspace c")
    case True
    then have "dropWhile isspace (rev x @ rev ''<draft>'') = dropWhile isspace (rev ''<draft>'')"
      by (intro dropWhile_append2) auto
    then show ?thesis by (simp add: isspace_def)
  next
    case False
    then obtain c where "c \<in> set (rev x)" "\<not> isspace c" by blast
    then have "dropWhile isspace (rev x @ rev ''<draft>'') = dropWhile isspace (rev x) @ rev ''<draft>''"
      by (rule dropWhile_append1)
    then show ?thesis by blast
  qed
  then obtain ys where "dropWhile isspace (rev (''<draft>'' @ x)) = ys @ rev ''<draft>''"
    by auto
  then have "strip (''<draft>'' @ x) = ''<draft>'' @ rev ys"
    unfolding strip_def lead by simp
  then show ?thesis
    by (simp add: startswith_def)
qed

lemma startswith_strip: "startswith draft ''<draft>'' \<Longrightarrow> startswith (strip draft) ''<draft>''"
  using strip_keeps_open_tag by (auto simp: startswith_def prefix_def)

text \<open>
  Claim C5, as stated, fails when the inner text itself starts with the open tag: for the
  inner text \<open><draft>a\<close> the wrapped input is sent as it is, and the inner text is sent
  as it is too, so two different messages reach the model.
\<close>

theorem idempotent_wrapping_counterexample:
  "chat (snd (convert_draft (stub_chat ''<styled_draft>S</styled_draft>'') ''t1''
                (Draft2Blog_init []) (''<draft>'' @ ''<draft>a'' @ ''</draft>'')))
     = [''<draft><draft>a</draft>'']
   \<and> chat (snd (convert_draft (stub_chat ''<styled_draft>S</styled_draft>'') ''t1''
                (Draft2Blog_init []) ''<draft>a''))
     = [''<draft>a'']
   \<and> chat (snd (convert_draft (stub_chat ''<styled_draft>S</styled_draft>'') ''t1''
                (Draft2Blog_init []) (''<draft>'' @ ''<draft>a'' @ ''</draft>'')))
     \<noteq> chat (snd (convert_draft (stub_chat ''<styled_draft>S</styled_draft>'') ''t1''
                (Draft2Blog_init []) ''<draft>a''))"
proof -
  have "startswith (strip (''<draft>'' @ ''<draft>a'' @ ''</draft>'')) ''<draft>''"
    and "startswith (strip ''<draft>a'') ''<draft>''"
    by code_simp+
  then show ?thesis
    by (simp add: convert_draft_def Let_def stub_chat_def extract_stub_styled Draft2Blog_init_def)
qed

text \<open>
  Claim C5, amended.  For every inner text \<open>x\<close> whose stripped form does not start with
  \<open><draft>\<close>, \<open>convert_draft\<close> on \<open><draft>x</draft>\<close> is \<open>convert_draft\<close> on \<open>x\<close>, for
  every model and every state: both send \<open><draft>x</draft>\<close>.  An input that starts with
  the open tag is sent unchanged.
\<close>

theorem idempotent_wrapping:
  "(\<not> startswith (strip x) ''<draft>'' \<longrightarrow>
      convert_draft send_message t self (''<draft>'' @ x @ ''</draft>'')
        = convert_draft send_message t self x
      \<and> chat (snd (convert_draft (stub_chat reply) t log x))
        = chat log @ [''<draft>'' @ x @ ''</draft>''])
   \<and> (startswith draft ''<draft>'' \<longrightarrow>
      chat (snd (convert_draft (stub_chat reply) t log draft)) = chat log @ [draft])"
proof (intro conjI impI)
  assume "\<not> startswith (strip x) ''<draft>''"
  moreover have "startswith (strip (''<draft>'' @ x @ ''</draft>'')) ''<draft>''"
    by (rule strip_keeps_open_tag)
  ultimately show "convert_draft send_message t self (''<draft>'' @ x @ ''</draft>'')
        = convert_draft send_message t self x"
    by (simp add: convert_draft_def)
next
  assume "\<not> startswith (strip x) ''<draft>''"
  then show "chat (snd (convert_draft (stub_chat reply) t log x))
        = chat log @ [''<draft>'' @ x @ ''</draft>'']"
    by (simp add: convert_draft_def stub_chat_def Let_def split: sum.splits)
next
  assume "startswith draft ''<draft>''"
  then have "startswith (strip draft) ''<draft>''"
    by (rule startswith_strip)
  then show "chat (snd (convert_draft (stub_chat reply) t log draft)) = chat log @ [draft]"
    by (simp add: convert_draft_def stub_chat_def Let_def split: sum.splits)
qed

theorem idempotent_wrapping_witness:
  "\<not> startswith (strip ''N'') ''<draft>''
   \<and> convert_draft (stub_chat ''<styled_draft>S</styled_draft>'') ''t1'' (Draft2Blog_init [])
         (''<draft>'' @ ''N'' @ ''</draft>'')
       = convert_draft (stub_chat ''<styled_draft>S</styled_draft>'') ''t1'' (Draft2Blog_init []) ''N''
   \<and> chat (snd (convert_draft (stub_chat ''<styled_draft>S</styled_draft>'') ''t1'' (Draft2Blog_init []) ''N''))
       = [''<draft>N</draft>'']
   \<and> startswith ''<draft>N</draft>'' ''<draft>''
   \<and> chat (snd (convert_draft (stub_chat ''<styled_draft>S</styled_draft>'') ''t1'' (Draft2Blog_init [])
                  ''<draft>N</draft>''))
       = [''<draft>N</draft>'']"
proof -
  have h: "startswith ''<draft>N</draft>'' ''<draft>''"
    by code_simp
  from not_wrapped_N h
    idempotent_wrapping [of "''N''" "stub_chat ''<styled_draft>S</styled_draft>''" "''t1''"
      "Draft2Blog_init []" "''<styled_draft>S</styled_draft>''" "Draft2Blog_init []" "''<draft>N</draft>''"]
  show ?thesis
    by (simp add: Draft2Blog_init_def)
qed


section \<open>Processing overwrites\<close>

lemma process_initial_idea_Inr:
  assumes "generate_content (get_processing_prompt idea) = Inr response"
  shows "process_initial_idea generate_content t self idea =
     (Inr (parse_response response),
      self\<lparr>thought_processor :=
             (thought_processor self)
               \<lparr>tp_memory := add_interaction t response (tp_memory (thought_processor self)),
                current_narrative := extract_tag_content response ''connected_narrative'',
                current_growth_points := extract_tag_content response ''growth_points''\<rparr>,
           current_state := Some (parse_response response)\<rparr>)"
  using assms by (simp add: process_initial_idea_def process_brain_dump_Inr)

lemma process_initial_idea_Inl:
  assumes "generate_content (get_processing_prompt idea) = Inl e"
  shows "process_initial_idea generate_content t self idea = (Inl e, self)"
  using assms by (simp add: process_initial_idea_def process_brain_dump_Inl)

text \<open>
  Claim C7.  After a successful \<open>process_initial_idea\<close> on \<open>a\<close> and then a successful one
  on \<open>b\<close>, the result, the orchestrator's \<open>current_state\<close> and the processor's current
  narrative and growth points are the sections parsed from the completion for \<open>b\<close>; they
  are what processing \<open>b\<close> leaves on any other orchestrator, so nothing of \<open>a\<close> is in
  them.
\<close>

theorem process_overwrites:
  assumes "process_initial_idea model_a t_a orch0 a = (Inr result_a, orch1)"
    and "process_initial_idea model_b t_b orch1 b = (Inr result_b, orch2)"
  shows "\<exists>response. model_b (get_processing_prompt b) = Inr response
      \<and> result_b = parse_response response
      \<and> current_state orch2 = Some (parse_response response)
      \<and> current_narrative (thought_processor orch2)
          = extract_tag_content response ''connected_narrative''
      \<and> current_growth_points (thought_processor orch2)
          = extract_tag_content response ''growth_points''
      \<and> current_state (snd (process_initial_idea model_b t_b other b)) = current_state orch2
      \<and> current_narrative (thought_processor (snd (process_initial_idea model_b t_b other b)))
          = current_narrative (thought_processor orch2)
      \<and> current_growth_points (thought_processor (snd (process_initial_idea model_b t_b other b)))
          = current_growth_points (thought_processor orch2)"
proof (cases "model_b (get_processing_prompt b)")
  case (Inl e)
  with assms(2) show ?thesis
    by (simp add: process_initial_idea_Inl)
next
  case (Inr response)
  from assms(2) Inr have r: "result_b = parse_response response"
    and o: "orch2 = snd (process_initial_idea model_b t_b orch1 b)"
    by (auto simp: process_initial_idea_Inr)
  from Inr show ?thesis
    unfolding r o by (simp add: process_initial_idea_Inr)
qed

lemma extract_stub_sections:
  "extract_tag_content stub_completion ''connected_narrative'' = ''N''"
  "extract_tag_content stub_completion ''growth_points'' = ''G''"
  by code_simp+

theorem process_overwrites_witness:
  "process_initial_idea (stub_model malformed_completion) ''t1'' (Orchestrator_init []) ''first''
     = (Inr (parse_response malformed_completion),
        snd (process_initial_idea (stub_model malformed_completion) ''t1'' (Orchestrator_init []) ''first''))
   \<and> process_initial_idea (stub_model stub_completion) ''t2''
        (snd (process_initial_idea (stub_model malformed_completion) ''t1'' (Orchestrator_init []) ''first''))
        ''second''
     = (Inr stub_sections,
        snd (process_initial_idea (stub_model stub_completion) ''t2''
          (snd (process_initial_idea (stub_model malformed_completion) ''t1'' (Orchestrator_init []) ''first''))
          ''second''))
   \<and> current_state (snd (process_initial_idea (stub_model stub_completion) ''t2''
          (snd (process_initial_idea (stub_model malformed_completion) ''t1'' (Orchestrator_init []) ''first''))
          ''second'')) = Some stub_sections
   \<and> current_narrative (thought_processor (snd (process_initial_idea (stub_model stub_completion) ''t2''
          (snd (process_initial_idea (stub_model malformed_completion) ''t1'' (Orchestrator_init []) ''first''))
          ''second''))) = ''N''"
proof -
  let ?o1 = "snd (process_initial_idea (stub_model malformed_completion) ''t1'' (Orchestrator_init []) ''first'')"
  let ?o2 = "snd (process_initial_idea (stub_model stub_completion) ''t2'' ?o1 ''second'')"
  have a: "process_initial_idea (stub_model malformed_completion) ''t1'' (Orchestrator_init []) ''first''
      = (Inr (parse_response malformed_completion), ?o1)"
    by (simp add: process_initial_idea_Inr stub_model_def)
  have b: "process_initial_idea (stub_model stub_completion) ''t2'' ?o1 ''second'' = (Inr stub_sections, ?o2)"
    by (simp add: process_initial_idea_Inr stub_model_def parse_stub_completion)
  from process_overwrites [OF a b, of ?o1] a b show ?thesis
    by (auto simp: stub_model_def parse_stub_completion extract_stub_sections)
qed


section \<open>Failed operations\<close>

text \<open>
  Claim C8.  When \<open>refine_narrative\<close> or \<open>refine_content\<close> raises, the processor and the
  orchestrator are as they were before the call.  When \<open>convert_draft\<close> raises, its
  session memory is as before; when \<open>finalize_to_blog\<close> raises, the processor, the
  orchestrator's \<open>current_state\<close> and the converter's session memory are as before.
\<close>

theorem failed_operations_keep_state:
  "(refine_narrative model t tp request = (Inl e, tp') \<longrightarrow> tp' = tp)
   \<and> (refine_content model t orch request = (Inl e, orch') \<longrightarrow> orch' = orch)
   \<and> (convert_draft send_message t conv draft = (Inl e, conv') \<longrightarrow> memory conv' = memory conv)
   \<and> (finalize_to_blog send_message t orch = (Inl e, orch') \<longrightarrow>
        thought_processor orch' = thought_processor orch
        \<and> current_state orch' = current_state orch
        \<and> memory (blog_converter orch') = memory (blog_converter orch))"
proof (intro conjI impI)
  show r: "tp' = tp" if "refine_narrative model t tp request = (Inl e, tp')" for tp tp'
    using that
    by (cases "model (get_refinement_prompt (current_narrative tp) request)")
      (simp_all add: refine_narrative_Inl refine_narrative_Inr)
  show "orch' = orch" if "refine_content model t orch request = (Inl e, orch')"
    using that r [of "thought_processor orch"]
    by (auto simp: refine_content_def split: prod.splits sum.splits)
  show c: "memory conv' = memory conv" if "convert_draft send_message t conv draft = (Inl e, conv')"
    for conv conv' draft
    using that
    by (auto simp: convert_draft_def Let_def split: prod.splits sum.splits)
  assume f: "finalize_to_blog send_message t orch = (Inl e, orch')"
  then show "thought_processor orch' = thought_processor orch"
    and "current_state orch' = current_state orch"
    and "memory (blog_converter orch') = memory (blog_converter orch)"
    using c by (auto simp: finalize_to_blog_def split: if_splits prod.splits sum.splits)
qed

lemma extract_no_tags:
  "extract_styled_content ''no tags'' = Inl (ValueError ''Could not find styled_draft tags in response'')"
  by code_simp

theorem failed_operations_keep_state_witness:
  "refine_content (\<lambda>prompt. Inl (RemoteCallError ''quota'')) ''t2''
      (snd (process_initial_idea (stub_model stub_completion) ''t1''
             (Orchestrator_init ([] :: string list)) ''hello''))
      ''more''
     = (Inl (RemoteCallError ''quota''),
        snd (process_initial_idea (stub_model stub_completion) ''t1'' (Orchestrator_init []) ''hello''))
   \<and> convert_draft (stub_chat ''no tags'') ''t2'' (Draft2Blog_init []) ''N''
     = (Inl (ValueError ''Could not find styled_draft tags in response''),
        \<lparr>memory = BlogMemory_init, chat = [''<draft>N</draft>'']\<rparr>)
   \<and> memory \<lparr>memory = BlogMemory_init, chat = [''<draft>N</draft>'']\<rparr>
     = memory (Draft2Blog_init ([] :: string list))
   \<and> finalize_to_blog (stub_chat ''no tags'') ''t2''
        (snd (process_initial_idea (stub_model stub_completion) ''t1'' (Orchestrator_init []) ''hello''))
     = (Inl (ValueError ''Could not find styled_draft tags in response''),
        (snd (process_initial_idea (stub_model stub_completion) ''t1'' (Orchestrator_init []) ''hello''))
          \<lparr>blog_converter := \<lparr>memory = BlogMemory_init, chat = [''<draft>N</draft>'']\<rparr>\<rparr>)
   \<and> current_state
        ((snd (process_initial_idea (stub_model stub_completion) ''t1'' (Orchestrator_init []) ''hello''))
          \<lparr>blog_converter := \<lparr>memory = BlogMemory_init, chat = [''<draft>N</draft>'']\<rparr>\<rparr>)
     = Some stub_sections"
proof -
  let ?o1 = "snd (process_initial_idea (stub_model stub_completion) ''t1''
    (Orchestrator_init ([] :: string list)) ''hello'')"
  let ?quota = "\<lambda>prompt :: string. Inl (RemoteCallError ''quota'') :: error + string"
  let ?missing = "ValueError ''Could not find styled_draft tags in response''"
  let ?conv = "\<lparr>memory = BlogMemory_init, chat = [''<draft>N</draft>'']\<rparr>"
  have o1: "current_state ?o1 = Some stub_sections"
    "blog_converter ?o1 = Draft2Blog_init []"
    by (simp_all add: process_initial_idea_Inr stub_model_def parse_stub_completion
        Orchestrator_init_def)
  have b: "refine_content ?quota ''t2'' ?o1 ''more'' = (Inl (RemoteCallError ''quota''), ?o1)"
    by (simp add: refine_content_def refine_narrative_Inl)
  have c: "convert_draft (stub_chat ''no tags'') ''t2'' (Draft2Blog_init []) ''N'' = (Inl ?missing, ?conv)"
    by (simp add: convert_draft_def Let_def stub_chat_def extract_no_tags not_wrapped_N
        Draft2Blog_init_def)
  have d: "finalize_to_blog (stub_chat ''no tags'') ''t2'' ?o1
      = (Inl ?missing, ?o1\<lparr>blog_converter := ?conv\<rparr>)"
    by (simp add: finalize_to_blog_def o1 falsy_def stub_sections_def dict_get_def c)
  have "memory ?conv = memory (Draft2Blog_init ([] :: string list))"
    using c failed_operations_keep_state
      [where send_message = "stub_chat ''no tags''" and t = "''t2''" and e = ?missing
         and conv = "Draft2Blog_init ([] :: string list)" and draft = "''N''" and conv' = ?conv]
    by blast
  moreover have "current_state (?o1\<lparr>blog_converter := ?conv\<rparr>) = current_state ?o1"
    using d failed_operations_keep_state
      [where send_message = "stub_chat ''no tags''" and t = "''t2''" and e = ?missing
         and orch = ?o1 and orch' = "?o1\<lparr>blog_converter := ?conv\<rparr>"]
    by blast
  ultimately show ?thesis
    using b c d o1 by simp
qed

end
